theory Spec2Isabelle
  imports Main
begin

section \<open>Strings of code points\<close>

text \<open>
  A Python \<open>str\<close> is a sequence of Unicode code points, and \<open>len\<close>, slicing, \<open>strip\<close>
  and the regular expressions of \<open>osito.py\<close> all work on code points. A string is
  therefore a list of code points (natural numbers); \<open>ustr\<close> reads an ASCII literal.
\<close>

type_synonym ustring = "nat list"

definition ustr :: "string \<Rightarrow> ustring" where
  "ustr s = map of_char s"

text \<open>
  The code points for which \<open>str.isspace\<close> holds. \<open>str.strip()\<close> without argument and
  the class \<open>\s\<close> of \<open>re\<close> on a \<open>str\<close> pattern both use this set.
\<close>

definition is_space :: "nat \<Rightarrow> bool" where
  "is_space c =
     ((0x09 \<le> c \<and> c \<le> 0x0D) \<or> (0x1C \<le> c \<and> c \<le> 0x20) \<or> c = 0x85 \<or> c = 0xA0
      \<or> c = 0x1680 \<or> (0x2000 \<le> c \<and> c \<le> 0x200A) \<or> c = 0x2028 \<or> c = 0x2029
      \<or> c = 0x202F \<or> c = 0x205F \<or> c = 0x3000)"

text \<open>\<open>s.strip()\<close>: leading and trailing whitespace removed.\<close>

definition strip :: "ustring \<Rightarrow> ustring" where
  "strip s = rev (dropWhile is_space (rev (dropWhile is_space s)))"

text \<open>\<open>s.startswith(p)\<close>.\<close>

definition startswith :: "ustring \<Rightarrow> ustring \<Rightarrow> bool" where
  "startswith s p = (take (length p) s = p)"

text \<open>\<open>p in s\<close> for strings: \<open>p\<close> occurs in \<open>s\<close> as a contiguous run.\<close>

fun str_contains :: "ustring \<Rightarrow> ustring \<Rightarrow> bool" where
  "str_contains [] p = (p = [])"
| "str_contains (c # cs) p = (startswith (c # cs) p \<or> str_contains cs p)"

section \<open>Response clean-up\<close>

text \<open>
  The character class of \<open>emoji_pattern\<close> in \<open>strip_emojis\<close>: ten inclusive ranges, in
  the order of the source.
\<close>

definition is_emoji :: "nat \<Rightarrow> bool" where
  "is_emoji c =
     ((0x1F600 \<le> c \<and> c \<le> 0x1F64F)
      \<or> (0x1F300 \<le> c \<and> c \<le> 0x1F5FF)
      \<or> (0x1F680 \<le> c \<and> c \<le> 0x1F6FF)
      \<or> (0x1F1E0 \<le> c \<and> c \<le> 0x1F1FF)
      \<or> (0x2702 \<le> c \<and> c \<le> 0x27B0)
      \<or> (0x24C2 \<le> c \<and> c \<le> 0x1F251)
      \<or> (0x1F900 \<le> c \<and> c \<le> 0x1F9FF)
      \<or> (0x1FA00 \<le> c \<and> c \<le> 0x1FA6F)
      \<or> (0x1FA70 \<le> c \<and> c \<le> 0x1FAFF)
      \<or> (0x2600 \<le> c \<and> c \<le> 0x26FF))"

text \<open>
  \<open>emoji_pattern.sub("", text).strip()\<close>: replacing every maximal run of class
  characters by the empty string deletes exactly the class characters.
\<close>

definition strip_emojis :: "ustring \<Rightarrow> ustring" where
  "strip_emojis text = strip (filter (\<lambda>c. \<not> is_emoji c) text)"

text \<open>
  One round of the loop \<open>for prefix in ["Osito:", "osito:", "**"]\<close>: the prefix is cut
  off when the text starts with it, and the rest is stripped.
\<close>

definition cut_prefix :: "ustring \<Rightarrow> ustring \<Rightarrow> ustring" where
  "cut_prefix response_text prefix =
     (if startswith response_text prefix
      then strip (drop (length prefix) response_text) else response_text)"

definition prefixes :: "ustring list" where
  "prefixes = [ustr ''Osito:'', ustr ''osito:'', ustr ''**'']"

text \<open>
  \<open>replace("**", "")\<close> scans from the left and deletes non-overlapping pairs of
  asterisks (code point 42); \<open>replace("*", "")\<close> deletes every asterisk left.
\<close>

fun replace_double_star :: "ustring \<Rightarrow> ustring" where
  "replace_double_star (a # b # cs) =
     (if a = 42 \<and> b = 42 then replace_double_star cs
      else a # replace_double_star (b # cs))"
| "replace_double_star cs = cs"

definition replace_star :: "ustring \<Rightarrow> ustring" where
  "replace_star s = filter (\<lambda>c. c \<noteq> 42) s"

text \<open>\<open>re.sub(r'\s+', ' ', s)\<close>: every maximal run of whitespace becomes one space.\<close>

function collapse_spaces :: "ustring \<Rightarrow> ustring" where
  "collapse_spaces [] = []"
| "collapse_spaces (c # cs) =
     (if is_space c then 32 # collapse_spaces (dropWhile is_space cs)
      else c # collapse_spaces cs)"
  by pat_completeness auto
termination
  by (relation "measure length") (auto simp: length_dropWhile_le less_Suc_eq_le)

definition default_reply :: ustring where
  "default_reply = ustr ''Hola! Como estas?''"

text \<open>
  The clean-up of \<open>generate_response\<close>, from the \<open>strip\<close> of the model's content to the
  whitespace normalisation; \<open>sanitize\<close> adds the substitution for an empty result.
\<close>

definition clean_up :: "ustring \<Rightarrow> ustring" where
  "clean_up response_content =
     (let response_text = strip response_content;
          response_text = foldl cut_prefix response_text prefixes;
          response_text = replace_star (replace_double_star response_text);
          response_text = strip_emojis response_text
      in strip (collapse_spaces response_text))"

definition sanitize :: "ustring \<Rightarrow> ustring" where
  "sanitize response_content =
     (let response_text = clean_up response_content
      in if response_text = [] then default_reply else response_text)"

text \<open>Two properties of strings used to describe the result of the clean-up.\<close>

fun single_spaced :: "ustring \<Rightarrow> bool" where
  "single_spaced (a # b # cs) =
     ((is_space a \<longrightarrow> a = 32 \<and> \<not> is_space b) \<and> single_spaced (b # cs))"
| "single_spaced [a] = (is_space a \<longrightarrow> a = 32)"
| "single_spaced [] = True"

definition trimmed :: "ustring \<Rightarrow> bool" where
  "trimmed s = (s = [] \<or> (\<not> is_space (hd s) \<and> \<not> is_space (last s)))"

section \<open>Exceptions and the external tools\<close>

text \<open>
  The exception classes that the handlers of \<open>osito.py\<close> tell apart. A constructor
  stands for the class and its subclasses; \<open>TimeoutExpired\<close> and \<open>CalledProcessError\<close>
  are the subclasses of \<open>subprocess.SubprocessError\<close>; \<open>TypeError\<close> and \<open>MemoryError\<close>
  stand for the subclasses of \<open>Exception\<close> that no handler of \<open>transcribe\<close> or \<open>speak\<close>
  names.
\<close>

datatype exn =
  RuntimeError | ValueError | KeyError | OSError
  | TimeoutExpired | CalledProcessError | TypeError | MemoryError

text \<open>How a \<open>subprocess.run\<close> ends: with a return code, by its timeout, or not started.\<close>

datatype proc = Exited int | Timeout | SpawnError

record message =
  role :: string
  content :: ustring

text \<open>
  What the program calls outside itself, as functions of the arguments it passes:
  \<^item> \<open>detect_language\<close>: \<open>pad_or_trim\<close>, \<open>log_mel_spectrogram\<close> and
    \<open>whisper_model.detect_language\<close>; the dictionary \<open>probs\<close> is an association list in
    its iteration order, over any linearly ordered type of probabilities;
  \<^item> \<open>whisper_transcribe\<close>: \<open>whisper_model.transcribe(...)["text"]\<close> for the audio, the
    language and the initial prompt;
  \<^item> \<open>str_lower\<close>: \<open>str.lower\<close>, the Unicode lower-casing of the Python library;
  \<^item> \<open>ollama_chat\<close>: \<open>ollama.chat(...)["message"]["content"]\<close> for the messages;
  \<^item> \<open>piper\<close>, \<open>afplay\<close>: the two \<open>subprocess.run\<close> calls of \<open>speak\<close>, for the text
    that is synthesised and played;
  \<^item> \<open>piper_stderr_utf8\<close>: whether the standard error captured from Piper for that text
    is valid UTF-8, so that \<open>process.stderr.decode()\<close> returns.
\<close>

record ('a, 'p) backends =
  detect_language :: "'a \<Rightarrow> exn + (string \<times> 'p) list"
  whisper_transcribe :: "'a \<Rightarrow> string \<Rightarrow> ustring \<Rightarrow> exn + ustring"
  str_lower :: "ustring \<Rightarrow> ustring"
  ollama_chat :: "message list \<Rightarrow> exn + ustring"
  piper :: "ustring \<Rightarrow> proc"
  piper_stderr_utf8 :: "ustring \<Rightarrow> bool"
  afplay :: "ustring \<Rightarrow> proc"

section \<open>Speech to text\<close>

text \<open>
  \<open>max(xs, key=f)\<close>: the first element whose key no later element exceeds; on an empty
  sequence Python raises \<open>ValueError\<close>, here \<open>None\<close>.
\<close>

fun max_by :: "('k \<Rightarrow> 'p::linorder) \<Rightarrow> 'k list \<Rightarrow> 'k option" where
  "max_by f [] = None"
| "max_by f (k # ks) = Some (foldl (\<lambda>best k'. if f best < f k' then k' else best) k ks)"

definition hallucinations :: "ustring list" where
  "hallucinations =
     map ustr [''Gracias por ver'', ''Suscribete'', ''subtitulos'',
               ''MBC'', ''Thank you for watching'', ''Subscribe'']"

definition initial_prompt :: "string \<Rightarrow> ustring" where
  "initial_prompt detected_lang =
     (if detected_lang = ''es'' then ustr ''Hola, como estas?'' else ustr ''Hello, how are you?'')"

text \<open>The calls \<open>transcribe\<close> makes on the Whisper model, in order.\<close>

datatype call = DetectLanguage | Transcribe string ustring

text \<open>
  The body of the \<open>try\<close> block of \<open>transcribe\<close>: the calls made, and either the exception
  raised (\<open>Inl\<close>) or the pair returned.
\<close>

definition transcribe_try ::
  "('a, 'p::linorder) backends \<Rightarrow> 'a \<Rightarrow> call list \<times> (exn + ustring option \<times> string)" where
  "transcribe_try b audio_data =
     (case detect_language b audio_data of
        Inl e \<Rightarrow> ([DetectLanguage], Inl e)
      | Inr probs \<Rightarrow>
          (case max_by (\<lambda>k. the (map_of probs k)) (map fst probs) of
             None \<Rightarrow> ([DetectLanguage], Inl ValueError)
           | Some detected_lang \<Rightarrow>
               if detected_lang \<notin> set [''en'', ''es'']
               then ([DetectLanguage], Inr (None, ''unsupported_language''))
               else
                 (case whisper_transcribe b audio_data detected_lang
                         (initial_prompt detected_lang) of
                    Inl e \<Rightarrow>
                      ([DetectLanguage, Transcribe detected_lang (initial_prompt detected_lang)],
                       Inl e)
                  | Inr result_text \<Rightarrow>
                      (let text = strip result_text
                       in ([DetectLanguage,
                            Transcribe detected_lang (initial_prompt detected_lang)],
                           Inr (if list_ex (\<lambda>h. str_contains (str_lower b text) (str_lower b h)
                                                 \<and> length text < 40) hallucinations
                                then (None, ''no_speech'')
                                else if text = [] \<or> length text < 2
                                then (None, ''no_speech'')
                                else (Some text, detected_lang)))))))"

text \<open>\<open>except (RuntimeError, ValueError, KeyError)\<close>: the handler of \<open>transcribe\<close>.\<close>

definition transcribe_handles :: "exn \<Rightarrow> bool" where
  "transcribe_handles e = (e \<in> set [RuntimeError, ValueError, KeyError])"

definition transcribe ::
  "('a, 'p::linorder) backends \<Rightarrow> 'a \<Rightarrow> call list \<times> (exn + ustring option \<times> string)" where
  "transcribe b audio_data =
     (case transcribe_try b audio_data of
        (calls, Inl e) \<Rightarrow>
          if transcribe_handles e then (calls, Inr (None, ''error'')) else (calls, Inl e)
      | (calls, Inr r) \<Rightarrow> (calls, Inr r))"

section \<open>Response generation\<close>

definition unlines :: "string list \<Rightarrow> ustring" where
  "unlines ls = concat (map (\<lambda>l. ustr l @ [10]) (butlast ls)) @ ustr (last ls)"

definition SYSTEM_PROMPT :: ustring where
  \<open>SYSTEM_PROMPT = unlines
     [''You are Osito, a friendly teddy bear teaching Spanish to 4-year-old children.'',
      '''',
      ''STRICT RULES:'',
      ''- Respond ONLY in simple Spanish (never English)'',
      ''- Maximum 8 words per response'',
      ''- End with ONE simple question'',
      ''- Use vocabulary a 4-year-old understands'',
      ''- NEVER use emojis'',
      ''- Remember the child's name and use it'',
      '''',
      ''GOOD EXAMPLES:'',
      ''- "Hola Ana! Te gustan los perros?"'',
      ''- "Azul! Muy lindo! Te gusta rojo?"'',
      ''- "Uno, dos, tres! Puedes contar?"'',
      ''- "Tengo hambre tambien! Te gusta pizza?"'',
      '''',
      ''TOPICS: colors, animals, food, numbers 1-5, family.'',
      ''FORBIDDEN: emojis, long sentences, difficult words, English in responses.'']\<close>

text \<open>
  \<open>generate_response\<close>: the request is the system prompt, the history and the new user
  message; \<open>except Exception\<close> turns every failure of the call into a fixed sentence.
\<close>

definition generate_response ::
  "('a, 'p) backends \<Rightarrow> ustring \<Rightarrow> message list \<Rightarrow> ustring" where
  "generate_response b user_text conversation_history =
     (let messages = [\<lparr>role = ''system'', content = SYSTEM_PROMPT\<rparr>]
                     @ conversation_history
                     @ [\<lparr>role = ''user'', content = user_text\<rparr>]
      in case ollama_chat b messages of
           Inl e \<Rightarrow> ustr ''Hola! Que quieres decirme?''
         | Inr response_content \<Rightarrow> sanitize response_content)"

section \<open>Text to speech\<close>

text \<open>
  What the program changes outside itself: the temporary files on disk (named by
  numbers), and the messages it plays and prints. \<open>PrintedOsito\<close> and \<open>PrintedTu\<close> are the
  console lines \<open>Osito: ...\<close> and \<open>Tu: "..."\<close> of \<open>main_loop\<close>; progress and latency lines
  carry no message and are left out.
\<close>

datatype emission =
  Played ustring | PrintedAudio ustring | PrintedTTSError
  | PrintedOsito ustring | PrintedTu ustring

record world =
  tmp_files :: "nat list"
  outputs :: "emission list"

text \<open>\<open>NamedTemporaryFile(delete=False)\<close> creates a file under a name not in use.\<close>

definition fresh_path :: "nat list \<Rightarrow> nat" where
  "fresh_path fs = Suc (fold max fs 0)"

text \<open>
  \<open>text.encode("utf-8")\<close> raises \<open>UnicodeEncodeError\<close>, a \<open>ValueError\<close>, when the text
  holds a surrogate code point (U+D800 to U+DFFF).
\<close>

definition utf8_encodable :: "ustring \<Rightarrow> bool" where
  "utf8_encodable text = list_all (\<lambda>c. \<not> (0xD800 \<le> c \<and> c \<le> 0xDFFF)) text"

text \<open>
  The body of the \<open>try\<close> block of \<open>speak\<close>: the exception raised, if any, and the world
  after. The temporary file is created and closed; the text is encoded; Piper runs; a
  return code other than 0 raises \<open>RuntimeError\<close> with the decoded standard error in its
  message, and \<open>process.stderr.decode()\<close> itself raises \<open>UnicodeDecodeError\<close>, a
  \<open>ValueError\<close>, when those bytes are not UTF-8; \<open>afplay\<close> runs with \<open>check=True\<close>; then
  \<open>os.unlink\<close> removes the file. Creating and removing the file are taken to succeed.
\<close>

definition speak_try :: "('a, 'p) backends \<Rightarrow> ustring \<Rightarrow> world \<Rightarrow> exn option \<times> world" where
  "speak_try b text w =
     (let tmp_path = fresh_path (tmp_files w);
          w1 = w\<lparr>tmp_files := tmp_path # tmp_files w\<rparr>
      in if \<not> utf8_encodable text then (Some ValueError, w1)
         else
           (case piper b text of
              Timeout \<Rightarrow> (Some TimeoutExpired, w1)
            | SpawnError \<Rightarrow> (Some OSError, w1)
            | Exited returncode \<Rightarrow>
                if returncode \<noteq> 0
                then (if piper_stderr_utf8 b text
                      then (Some RuntimeError, w1) else (Some ValueError, w1))
                else
                  (case afplay b text of
                     Timeout \<Rightarrow> (Some TimeoutExpired, w1)
                   | SpawnError \<Rightarrow> (Some OSError, w1)
                   | Exited rc \<Rightarrow>
                       if rc \<noteq> 0 then (Some CalledProcessError, w1)
                       else (None, w1\<lparr>tmp_files := removeAll tmp_path (tmp_files w1),
                                       outputs := outputs w1 @ [Played text]\<rparr>))))"

text \<open>
  \<open>speak\<close> with its two handlers: \<open>except subprocess.TimeoutExpired\<close> prints the text;
  \<open>except (RuntimeError, OSError, subprocess.SubprocessError)\<close> prints the error and the
  text; an exception of another class leaves \<open>speak\<close>. The result is the exception that
  leaves \<open>speak\<close>, if any, and the world after.
\<close>

definition speak :: "('a, 'p) backends \<Rightarrow> ustring \<Rightarrow> world \<Rightarrow> exn option \<times> world" where
  "speak b text w =
     (case speak_try b text w of
        (None, w') \<Rightarrow> (None, w')
      | (Some e, w') \<Rightarrow>
          if e = TimeoutExpired
          then (None, w'\<lparr>outputs := outputs w' @ [PrintedAudio text]\<rparr>)
          else if e \<in> set [RuntimeError, OSError, CalledProcessError]
          then (None, w'\<lparr>outputs := outputs w' @ [PrintedTTSError, PrintedAudio text]\<rparr>)
          else (Some e, w'))"

section \<open>The conversation loop\<close>

definition MAX_HISTORY_TURNS :: nat where
  "MAX_HISTORY_TURNS = 4"

text \<open>
  The end of a successful turn: the two messages are appended, and when the history is
  longer than \<open>max_messages\<close> the slice \<open>conversation_history[-max_messages:]\<close> is kept.
\<close>

definition append_exchange :: "message list \<Rightarrow> ustring \<Rightarrow> ustring \<Rightarrow> message list" where
  "append_exchange conversation_history text response =
     (let h = conversation_history
                @ [\<lparr>role = ''user'', content = text\<rparr>,
                   \<lparr>role = ''assistant'', content = response\<rparr>];
          max_messages = MAX_HISTORY_TURNS * 2
      in if length h > max_messages then drop (length h - max_messages) h else h)"

text \<open>The two messages of one exchange, and a run of exchanges from the empty history.\<close>

definition exchange :: "ustring \<times> ustring \<Rightarrow> message list" where
  "exchange p = [\<lparr>role = ''user'', content = fst p\<rparr>,
                 \<lparr>role = ''assistant'', content = snd p\<rparr>]"

definition run_exchanges :: "(ustring \<times> ustring) list \<Rightarrow> message list" where
  "run_exchanges ps = foldl (\<lambda>h p. append_exchange h (fst p) (snd p)) [] ps"

definition msg_unsupported :: ustring where
  "msg_unsupported = ustr ''Hmm, solo entiendo espanol e ingles. Try again!''"

definition msg_not_heard :: ustring where
  "msg_not_heard = ustr ''No te escuche bien. Can you say that again?''"

text \<open>The message of the two early exits of \<open>main_loop\<close>, by the status returned.\<close>

definition fallback_message :: "string \<Rightarrow> ustring" where
  "fallback_message status =
     (if status = ''unsupported_language'' then msg_unsupported else msg_not_heard)"

text \<open>\<open>print(f"Osito: {msg}")\<close> followed by \<open>speak(msg)\<close>.\<close>

definition say :: "('a, 'p) backends \<Rightarrow> ustring \<Rightarrow> world \<Rightarrow> exn option \<times> world" where
  "say b msg w = speak b msg (w\<lparr>outputs := outputs w @ [PrintedOsito msg]\<rparr>)"

text \<open>
  One round of the \<open>while\<close> loop of \<open>main_loop\<close> after the recording, from the history
  and the world before: the exception that leaves the round, if any (it ends the loop
  and the program), the history and the world after.
\<close>

definition turn ::
  "('a, 'p::linorder) backends \<Rightarrow> 'a \<Rightarrow> message list \<times> world
     \<Rightarrow> exn option \<times> message list \<times> world" where
  "turn b audio_data st =
     (let conversation_history = fst st; w = snd st
      in case snd (transcribe b audio_data) of
           Inl e \<Rightarrow> (Some e, conversation_history, w)
         | Inr (text, status) \<Rightarrow>
             if status = ''unsupported_language''
             then (case say b msg_unsupported w of
                     (raised, w') \<Rightarrow> (raised, conversation_history, w'))
             else
               (case text of
                  None \<Rightarrow>
                    (case say b msg_not_heard w of
                       (raised, w') \<Rightarrow> (raised, conversation_history, w'))
                | Some t \<Rightarrow>
                    (let w1 = w\<lparr>outputs := outputs w @ [PrintedTu t]\<rparr>;
                         response = generate_response b t conversation_history
                     in case say b response w1 of
                          (Some e, w') \<Rightarrow> (Some e, conversation_history, w')
                        | (None, w') \<Rightarrow>
                            (None, append_exchange conversation_history t response, w'))))"

section \<open>Unicode blocks\<close>

text \<open>
  Blocks of the Unicode Standard (\<open>Blocks.txt\<close>) used to describe what falls into the
  ranges of \<open>strip_emojis\<close>: Hiragana, Katakana, CJK Unified Ideographs Extension A,
  CJK Unified Ideographs, Hangul Syllables and CJK Compatibility Ideographs, all in
  the Basic Multilingual Plane; and two blocks of the same scripts outside the ranges,
  CJK Unified Ideographs Extension B and Hangul Jamo.
\<close>

definition east_asian_bmp :: "nat \<Rightarrow> bool" where
  "east_asian_bmp c =
     ((0x3040 \<le> c \<and> c \<le> 0x309F) \<or> (0x30A0 \<le> c \<and> c \<le> 0x30FF)
      \<or> (0x3400 \<le> c \<and> c \<le> 0x4DBF) \<or> (0x4E00 \<le> c \<and> c \<le> 0x9FFF)
      \<or> (0xAC00 \<le> c \<and> c \<le> 0xD7AF) \<or> (0xF900 \<le> c \<and> c \<le> 0xFAFF))"

definition cjk_extension_b :: "nat \<Rightarrow> bool" where
  "cjk_extension_b c = (0x20000 \<le> c \<and> c \<le> 0x2A6DF)"

definition hangul_jamo :: "nat \<Rightarrow> bool" where
  "hangul_jamo c = (0x1100 \<le> c \<and> c \<le> 0x11FF)"

text \<open>The sixth range of \<open>emoji_pattern\<close>, labelled "enclosed characters" in the source.\<close>

definition enclosed_range :: "nat \<Rightarrow> bool" where
  "enclosed_range c = (0x24C2 \<le> c \<and> c \<le> 0x1F251)"

section \<open>Stand-ins for the external tools\<close>

text \<open>
  Fixed answers in place of Whisper, Ollama, Piper and \<open>afplay\<close>, to run the model on
  examples: what language detection and transcription give, and how Piper ends. The
  audio is of no concern (\<open>unit\<close>), probabilities are in percent, \<open>str.lower\<close> is its
  restriction to ASCII letters, the chat answers \<open>"Hola!"\<close>, the standard error of Piper
  is UTF-8 and \<open>afplay\<close> succeeds.
\<close>

definition ascii_lower :: "ustring \<Rightarrow> ustring" where
  "ascii_lower s = map (\<lambda>c. if 65 \<le> c \<and> c \<le> 90 then c + 32 else c) s"

definition test_backends ::
  "exn + (string \<times> nat) list \<Rightarrow> exn + ustring \<Rightarrow> proc \<Rightarrow> (unit, nat) backends" where
  "test_backends detected transcript piper_end =
     \<lparr>detect_language = (\<lambda>_. detected),
      whisper_transcribe = (\<lambda>_ _ _. transcript),
      str_lower = ascii_lower,
      ollama_chat = (\<lambda>_. Inr (ustr ''Hola!'')),
      piper = (\<lambda>_. piper_end),
      piper_stderr_utf8 = (\<lambda>_. True),
      afplay = (\<lambda>_. Exited 0)\<rparr>"

section \<open>Facts about the string operations\<close>


lemma set_strip: "set (strip s) \<subseteq> set s"
  unfolding strip_def by (auto dest!: set_dropWhileD)

lemma set_collapse_spaces: "set (collapse_spaces s) \<subseteq> insert 32 (set s)"
  by (induction s rule: collapse_spaces.induct) (auto dest: set_dropWhileD)

lemma set_strip_emojis: "set (strip_emojis s) \<subseteq> {c \<in> set s. \<not> is_emoji c}"
  unfolding strip_emojis_def using set_strip by fastforce

lemma set_replace_double_star: "set (replace_double_star s) \<subseteq> set s"
  by (induction s rule: replace_double_star.induct) auto

lemma set_replace_star: "set (replace_star s) = set s - {42}"
  by (auto simp: replace_star_def)

lemma hd_collapse_spaces:
  "s \<noteq> [] \<Longrightarrow> \<not> is_space (hd s) \<Longrightarrow>
     collapse_spaces s \<noteq> [] \<and> hd (collapse_spaces s) = hd s"
  by (cases s) auto

lemma single_spaced_Cons:
  "single_spaced (a # s) =
     ((is_space a \<longrightarrow> a = 32 \<and> (s \<noteq> [] \<longrightarrow> \<not> is_space (hd s))) \<and> single_spaced s)"
  by (cases s) auto

lemma single_spaced_collapse: "single_spaced (collapse_spaces s)"
proof (induction s rule: collapse_spaces.induct)
  case 1
  show ?case by simp
next
  case (2 c cs)
  show ?case
  proof (cases "is_space c")
    case True
    let ?r = "dropWhile is_space cs"
    have "?r \<noteq> [] \<Longrightarrow> \<not> is_space (hd (collapse_spaces ?r))"
      using hd_collapse_spaces [of ?r] hd_dropWhile [of is_space cs] by simp
    moreover have "?r = [] \<Longrightarrow> collapse_spaces ?r = []"
      by (simp only: collapse_spaces.simps)
    ultimately show ?thesis
      using True 2 by (auto simp: single_spaced_Cons)
  next
    case False
    then show ?thesis using 2 by (simp add: single_spaced_Cons)
  qed
qed

lemma collapse_single_spaced: "single_spaced s \<Longrightarrow> collapse_spaces s = s"
  by (induction s rule: single_spaced.induct) auto

lemma single_spaced_append:
  "single_spaced (xs @ ys) \<Longrightarrow> single_spaced xs \<and> single_spaced ys"
  by (induction xs rule: single_spaced.induct) (auto simp: single_spaced_Cons)

lemma strip_infix: "\<exists>a b. s = a @ strip s @ b"
proof -
  let ?t = "dropWhile is_space s"
  have "s = takeWhile is_space s @ ?t" by simp
  moreover have "rev ?t = takeWhile is_space (rev ?t) @ dropWhile is_space (rev ?t)" by simp
  then have "?t = strip s @ rev (takeWhile is_space (rev ?t))"
    unfolding strip_def by (metis rev_append rev_rev_ident)
  ultimately show ?thesis by metis
qed

lemma single_spaced_strip: "single_spaced s \<Longrightarrow> single_spaced (strip s)"
  using strip_infix [of s] single_spaced_append by metis

lemma trimmed_strip: "trimmed (strip s)"
proof (cases "strip s = []")
  case True
  then show ?thesis by (simp add: trimmed_def)
next
  case False
  let ?t = "dropWhile is_space s"
  let ?u = "dropWhile is_space (rev ?t)"
  from False have u: "?u \<noteq> []" by (simp add: strip_def)
  have t: "?t \<noteq> []"
  proof
    assume "?t = []"
    then have "?u = []" by (simp only: rev.simps dropWhile.simps)
    with u show False by (rule notE)
  qed
  have "last (strip s) = hd ?u" using u by (simp add: strip_def last_rev)
  then have l: "\<not> is_space (last (strip s))" using u hd_dropWhile by metis
  obtain b where "?t = strip s @ b" 
    using takeWhile_dropWhile_id [of is_space "rev ?t"] unfolding strip_def
    by (metis rev_append rev_rev_ident)
  then have "hd (strip s) = hd ?t" using False by (metis hd_append2)
  then have "\<not> is_space (hd (strip s))" using t hd_dropWhile by metis
  with l show ?thesis by (simp add: trimmed_def)
qed

lemma strip_trimmed: "trimmed s \<Longrightarrow> strip s = s"
proof (cases "s = []")
  case True
  then show ?thesis by (simp add: strip_def)
next
  case False
  assume "trimmed s"
  with False have h: "\<not> is_space (hd s)" and l: "\<not> is_space (last s)"
    by (auto simp: trimmed_def)
  from h False have "dropWhile is_space s = s" by (cases s) auto
  moreover from l False have "dropWhile is_space (rev s) = rev s"
    by (cases "rev s") (auto simp: last_rev [symmetric] hd_rev)
  ultimately show ?thesis by (simp add: strip_def)
qed


lemma length_strip: "length (strip s) \<le> length s"
proof -
  have "length (strip s) \<le> length (rev (dropWhile is_space s))"
    using length_dropWhile_le [of is_space "rev (dropWhile is_space s)"]
    by (simp add: strip_def)
  also have "\<dots> \<le> length s" by (simp add: length_dropWhile_le)
  finally show ?thesis .
qed

lemma set_cut_prefix: "set (cut_prefix s p) \<subseteq> set s"
  unfolding cut_prefix_def using set_strip [of "drop (length p) s"] set_drop_subset [of "length p" s]
  by auto

lemma length_cut_prefix: "length (cut_prefix s p) \<le> length s"
  unfolding cut_prefix_def using length_strip [of "drop (length p) s"] by auto

lemma length_cut_prefix_less:
  "startswith s p \<Longrightarrow> p \<noteq> [] \<Longrightarrow> length (cut_prefix s p) < length s"
proof -
  assume a: "startswith s p" and b: "p \<noteq> []"
  then have "length (take (length p) s) = length p"
    by (simp only: startswith_def)
  then have "length p \<le> length s" by simp
  moreover have "0 < length p" using b by simp
  moreover have "length (cut_prefix s p) \<le> length s - length p"
    unfolding cut_prefix_def using a length_strip [of "drop (length p) s"] by simp
  ultimately show ?thesis by linarith
qed

lemma startswith_set: "startswith s p \<Longrightarrow> set p \<subseteq> set s"
  unfolding startswith_def using set_take_subset [of "length p" s] by simp

lemma foldl_prefixes:
  "foldl cut_prefix s prefixes =
     cut_prefix (cut_prefix (cut_prefix s (ustr ''Osito:'')) (ustr ''osito:'')) (ustr ''**'')"
  by (simp add: prefixes_def)

lemma set_cut_prefixes: "set (foldl cut_prefix s prefixes) \<subseteq> set s"
  unfolding foldl_prefixes using set_cut_prefix by blast

lemma length_replace_double_star: "length (replace_double_star s) \<le> length s"
  by (induction s rule: replace_double_star.induct) auto

lemma length_collapse_spaces: "length (collapse_spaces s) \<le> length s"
proof (induction s rule: collapse_spaces.induct)
  case 1
  show ?case by simp
next
  case (2 c cs)
  have "length (dropWhile is_space cs) \<le> length cs" by (rule length_dropWhile_le)
  with 2 show ?case by auto
qed

lemma length_tail_steps:
  "length (strip (collapse_spaces (strip_emojis (replace_star (replace_double_star s)))))
     \<le> length s"
proof -
  let ?a = "replace_double_star s"
  let ?b = "replace_star ?a"
  let ?c = "strip_emojis ?b"
  let ?d = "collapse_spaces ?c"
  have "length (strip ?d) \<le> length ?d" by (rule length_strip)
  also have "\<dots> \<le> length ?c" by (rule length_collapse_spaces)
  also have "\<dots> \<le> length ?b"
    unfolding strip_emojis_def
    using length_strip [of "filter (\<lambda>c. \<not> is_emoji c) ?b"] length_filter_le [of "\<lambda>c. \<not> is_emoji c" ?b]
    by linarith
  also have "\<dots> \<le> length ?a" unfolding replace_star_def by (rule length_filter_le)
  also have "\<dots> \<le> length s" by (rule length_replace_double_star)
  finally show ?thesis .
qed

lemma replace_double_star_id: "42 \<notin> set s \<Longrightarrow> replace_double_star s = s"
  by (induction s rule: replace_double_star.induct) auto

lemma clean_up_star_free: "42 \<notin> set (clean_up x)"
proof -
  let ?t = "replace_star (replace_double_star (foldl cut_prefix (strip x) prefixes))"
  have "42 \<notin> set ?t" by (simp add: set_replace_star)
  then have "42 \<notin> set (strip_emojis ?t)" using set_strip_emojis [of ?t] by auto
  then have "42 \<notin> set (collapse_spaces (strip_emojis ?t))"
    using set_collapse_spaces [of "strip_emojis ?t"] by auto
  then show ?thesis
    unfolding clean_up_def Let_def using set_strip [of "collapse_spaces (strip_emojis ?t)"] by auto
qed

lemma not_emoji_space: "\<not> is_emoji 32"
  by (simp add: is_emoji_def)

lemma clean_up_emoji_free: "c \<in> set (clean_up x) \<Longrightarrow> \<not> is_emoji c"
proof -
  let ?t = "replace_star (replace_double_star (foldl cut_prefix (strip x) prefixes))"
  assume "c \<in> set (clean_up x)"
  then have "c \<in> set (collapse_spaces (strip_emojis ?t))"
    unfolding clean_up_def Let_def using set_strip by blast
  then have "c = 32 \<or> c \<in> set (strip_emojis ?t)"
    using set_collapse_spaces [of "strip_emojis ?t"] by auto
  then show ?thesis using set_strip_emojis [of ?t] not_emoji_space by auto
qed

lemma clean_up_trimmed: "trimmed (clean_up x)"
  unfolding clean_up_def Let_def by (rule trimmed_strip)

lemma clean_up_single_spaced: "single_spaced (clean_up x)"
  unfolding clean_up_def Let_def by (rule single_spaced_strip) (rule single_spaced_collapse)

lemmas string_defs = ustr_def strip_def startswith_def is_space_def is_emoji_def
lemmas sanitize_defs = sanitize_def clean_up_def prefixes_def cut_prefix_def replace_star_def
  strip_emojis_def default_reply_def string_defs

lemma default_reply_clean:
  "default_reply \<noteq> [] \<and> 42 \<notin> set default_reply \<and> \<not> list_ex is_emoji default_reply
   \<and> trimmed default_reply \<and> single_spaced default_reply
   \<and> \<not> startswith default_reply (ustr ''Osito:'') \<and> \<not> startswith default_reply (ustr ''osito:'')"
  by (simp add: default_reply_def trimmed_def string_defs)

text \<open>A clean string that does not start with a role label is left as it is.\<close>

lemma clean_up_fixpoint:
  assumes "trimmed y" and "single_spaced y" and "42 \<notin> set y" and "\<not> list_ex is_emoji y"
    and "\<not> startswith y (ustr ''Osito:'')" and "\<not> startswith y (ustr ''osito:'')"
  shows "clean_up y = y"
proof -
  have 1: "strip y = y" using assms(1) by (rule strip_trimmed)
  have "\<not> startswith y (ustr ''**'')"
  proof
    assume "startswith y (ustr ''**'')"
    then have "set (ustr ''**'') \<subseteq> set y" by (rule startswith_set)
    then have "42 \<in> set y" by (simp add: ustr_def)
    with assms(3) show False by (rule notE)
  qed
  then have 2: "foldl cut_prefix y prefixes = y"
    using assms(5,6) by (simp add: foldl_prefixes cut_prefix_def)
  have 3: "replace_star (replace_double_star y) = y"
    using assms(3) by (auto simp: replace_double_star_id replace_star_def filter_id_conv)
  have "filter (\<lambda>c. \<not> is_emoji c) y = y"
    using assms(4) by (simp add: list_ex_iff)
  then have 4: "strip_emojis y = y" using 1 by (simp add: strip_emojis_def)
  have 5: "collapse_spaces y = y" using assms(2) by (rule collapse_single_spaced)
  show ?thesis unfolding clean_up_def Let_def 1 2 3 4 5 by (rule refl)
qed

lemma sanitize_clean:
  "sanitize x \<noteq> [] \<and> 42 \<notin> set (sanitize x) \<and> \<not> list_ex is_emoji (sanitize x)
   \<and> trimmed (sanitize x) \<and> single_spaced (sanitize x)"
proof (cases "clean_up x = []")
  case True
  then have "sanitize x = default_reply" by (simp add: sanitize_def)
  then show ?thesis using default_reply_clean by simp
next
  case False
  then have "sanitize x = clean_up x" by (simp add: sanitize_def)
  then show ?thesis
    using False clean_up_star_free [of x] clean_up_emoji_free [of _ x]
      clean_up_trimmed [of x] clean_up_single_spaced [of x]
    by (auto simp: list_ex_iff)
qed

lemma clean_up_label_shorter:
  assumes "trimmed y" and "startswith y (ustr ''Osito:'') \<or> startswith y (ustr ''osito:'')"
  shows "length (clean_up y) < length y"
proof -
  have 1: "strip y = y" using assms(1) by (rule strip_trimmed)
  let ?a = "cut_prefix y (ustr ''Osito:'')"
  let ?b = "cut_prefix ?a (ustr ''osito:'')"
  let ?c = "cut_prefix ?b (ustr ''**'')"
  have "length ?b < length y"
  proof (cases "startswith y (ustr ''Osito:'')")
    case True
    then have "length ?a < length y" by (rule length_cut_prefix_less) (simp add: ustr_def)
    moreover have "length ?b \<le> length ?a" by (rule length_cut_prefix)
    ultimately show ?thesis by linarith
  next
    case False
    then have "?a = y" by (simp add: cut_prefix_def)
    moreover have "startswith y (ustr ''osito:'')" using False assms(2) by simp
    ultimately show ?thesis using length_cut_prefix_less [of y "ustr ''osito:''"]
      by (simp add: ustr_def)
  qed
  moreover have "length ?c \<le> length ?b" by (rule length_cut_prefix)
  moreover have "length (clean_up y) \<le> length ?c"
    unfolding clean_up_def Let_def 1 foldl_prefixes by (rule length_tail_steps)
  ultimately show ?thesis by linarith
qed

section \<open>The claims about the response clean-up\<close>

text \<open>
  C3, as amended. The clean-up is not idempotent on every input: each of the three
  prefixes is tried once, in a fixed order, so a role label that only reaches the start
  of the text after a prefix, an asterisk or an emoji before it has gone stays in the
  result, and a second pass removes it. What holds: \<open>sanitize (sanitize x) = sanitize x\<close>
  exactly when \<open>sanitize x\<close> does not start with \<open>Osito:\<close> or \<open>osito:\<close>.
\<close>

theorem sanitize_idempotent_iff:
  "sanitize (sanitize x) = sanitize x \<longleftrightarrow>
     \<not> startswith (sanitize x) (ustr ''Osito:'') \<and> \<not> startswith (sanitize x) (ustr ''osito:'')"
proof
  let ?y = "sanitize x"
  assume idem: "sanitize ?y = ?y"
  show "\<not> startswith ?y (ustr ''Osito:'') \<and> \<not> startswith ?y (ustr ''osito:'')"
  proof (rule ccontr)
    assume "\<not> (\<not> startswith ?y (ustr ''Osito:'') \<and> \<not> startswith ?y (ustr ''osito:''))"
    then have lab: "startswith ?y (ustr ''Osito:'') \<or> startswith ?y (ustr ''osito:'')" by blast
    have "trimmed ?y" using sanitize_clean [of x] by simp
    then have less: "length (clean_up ?y) < length ?y" using lab by (rule clean_up_label_shorter)
    have "sanitize ?y = default_reply \<or> sanitize ?y = clean_up ?y"
      by (simp add: sanitize_def Let_def)
    then show False
    proof
      assume "sanitize ?y = default_reply"
      then have "?y = default_reply" using idem by simp
      then show False using lab default_reply_clean by simp
    next
      assume "sanitize ?y = clean_up ?y"
      then show False using less idem by simp
    qed
  qed
next
  let ?y = "sanitize x"
  assume "\<not> startswith ?y (ustr ''Osito:'') \<and> \<not> startswith ?y (ustr ''osito:'')"
  then have "clean_up ?y = ?y"
    using sanitize_clean [of x] by (intro clean_up_fixpoint) simp_all
  then show "sanitize ?y = ?y" using sanitize_clean [of x] by (simp add: sanitize_def)
qed

text \<open>The amended C3 at the reply \<open>" *Hola*  Ana! "\<close>, whose clean form is \<open>"Hola Ana!"\<close>.\<close>

theorem sanitize_idempotent_iff_witness:
  "\<not> startswith (sanitize (ustr '' *Hola*  Ana! '')) (ustr ''Osito:'')
   \<and> \<not> startswith (sanitize (ustr '' *Hola*  Ana! '')) (ustr ''osito:'')
   \<and> sanitize (sanitize (ustr '' *Hola*  Ana! '')) = sanitize (ustr '' *Hola*  Ana! '')
   \<and> sanitize (ustr '' *Hola*  Ana! '') = ustr ''Hola Ana!''"
  using sanitize_idempotent_iff [of "ustr '' *Hola*  Ana! ''"]
  by (simp add: sanitize_defs)

text \<open>
  C3 as stated fails at the reply \<open>"Osito: Osito: hi"\<close>: the first pass gives
  \<open>"Osito: hi"\<close>, the second \<open>"hi"\<close>.
\<close>

theorem sanitize_not_idempotent:
  "sanitize (ustr ''Osito: Osito: hi'') = ustr ''Osito: hi''
   \<and> sanitize (sanitize (ustr ''Osito: Osito: hi'')) = ustr ''hi''
   \<and> sanitize (sanitize (ustr ''Osito: Osito: hi'')) \<noteq> sanitize (ustr ''Osito: Osito: hi'')"
  by (simp add: sanitize_defs)

text \<open>
  C4. For every input the result of the clean-up is not empty, has no asterisk (code
  point 42) and no code point of the ranges of \<open>strip_emojis\<close>; when the cleaned text is
  empty the result is the fixed sentence \<open>"Hola! Como estas?"\<close>.
\<close>

theorem sanitize_output:
  "sanitize x \<noteq> [] \<and> 42 \<notin> set (sanitize x) \<and> \<not> list_ex is_emoji (sanitize x)
   \<and> (clean_up x = [] \<longrightarrow> sanitize x = ustr ''Hola! Como estas?'')"
  using sanitize_clean [of x] by (simp add: sanitize_def default_reply_def)

text \<open>C4 at the reply \<open>"** * "\<close> followed by U+1F60A, which the clean-up empties.\<close>

theorem sanitize_output_witness:
  "clean_up (ustr ''** * '' @ [0x1F60A]) = []
   \<and> sanitize (ustr ''** * '' @ [0x1F60A]) = ustr ''Hola! Como estas?''
   \<and> 42 \<notin> set (sanitize (ustr ''** * '' @ [0x1F60A]))
   \<and> \<not> list_ex is_emoji (sanitize (ustr ''** * '' @ [0x1F60A]))"
  using sanitize_output [of "ustr ''** * '' @ [0x1F60A]"]
  by (simp add: sanitize_defs)

text \<open>
  C9. The reply \<open>"**Osito:** Hola Ana! "\<close>, U+1F60A, \<open>" Te gusta el azul?"\<close> keeps its role
  label: the prefix \<open>"Osito:"\<close> is tried before \<open>"**"\<close> is cut off and not again after,
  so the result is \<open>"Osito: Hola Ana! Te gusta el azul?"\<close>.
\<close>

theorem sanitize_labelled_reply:
  "sanitize (ustr ''**Osito:** Hola Ana! '' @ [0x1F60A] @ ustr '' Te gusta el azul?'')
     = ustr ''Osito: Hola Ana! Te gusta el azul?''"
  by (simp add: sanitize_defs)

text \<open>
  C10, as amended. \<open>strip_emojis\<close> deletes every code point from U+24C2 to U+1F251. The
  range holds the blocks Hiragana, Katakana, CJK Unified Ideographs with Extension A,
  Hangul Syllables and CJK Compatibility Ideographs, and a reply made only of code
  points of the range becomes the fixed sentence \<open>"Hola! Como estas?"\<close>.
\<close>

theorem enclosed_range_removed:
  "(enclosed_range c \<longrightarrow> is_emoji c)
   \<and> (east_asian_bmp c \<longrightarrow> enclosed_range c)
   \<and> \<not> list_ex enclosed_range (strip_emojis s)
   \<and> (list_all enclosed_range reply \<longrightarrow> sanitize reply = ustr ''Hola! Como estas?'')"
proof -
  have 1: "enclosed_range c \<longrightarrow> is_emoji c" for c
    by (simp add: enclosed_range_def is_emoji_def)
  have 2: "east_asian_bmp c \<longrightarrow> enclosed_range c"
    by (auto simp: east_asian_bmp_def enclosed_range_def)
  have 3: "\<not> list_ex enclosed_range (strip_emojis s)"
    using set_strip_emojis [of s] 1 by (auto simp: list_ex_iff)
  have 4: "sanitize reply = ustr ''Hola! Como estas?''" if a: "list_all enclosed_range reply"
  proof -
    let ?t = "replace_star (replace_double_star (foldl cut_prefix (strip reply) prefixes))"
    have "set ?t \<subseteq> set reply"
      using set_replace_star [of "replace_double_star (foldl cut_prefix (strip reply) prefixes)"]
        set_replace_double_star [of "foldl cut_prefix (strip reply) prefixes"]
        set_cut_prefixes [of "strip reply"] set_strip [of reply]
      by blast
    then have "\<forall>c \<in> set ?t. is_emoji c" using a 1 by (auto simp: list_all_iff)
    then have "filter (\<lambda>c. \<not> is_emoji c) ?t = []" by (simp add: filter_empty_conv)
    then have "strip_emojis ?t = []" by (simp add: strip_emojis_def strip_def)
    then have "clean_up reply = []" by (simp add: clean_up_def strip_def)
    then show ?thesis by (simp add: sanitize_def default_reply_def)
  qed
  from 1 2 3 4 show ?thesis by blast
qed

text \<open>
  The amended C10 at the Hiragana reply U+3053 U+3093 U+306B U+3061 U+306F and at the
  ideograph U+4E00.
\<close>

theorem enclosed_range_removed_witness:
  "enclosed_range 0x4E00 \<and> east_asian_bmp 0x4E00 \<and> is_emoji 0x4E00
   \<and> list_all enclosed_range [0x3053, 0x3093, 0x306B, 0x3061, 0x306F]
   \<and> sanitize [0x3053, 0x3093, 0x306B, 0x3061, 0x306F] = ustr ''Hola! Como estas?''"
  using enclosed_range_removed [of "0x4E00" "[]" "[0x3053, 0x3093, 0x306B, 0x3061, 0x306F]"]
  by (simp add: enclosed_range_def east_asian_bmp_def)

text \<open>
  C10 as stated fails for the ideograph U+20000 of CJK Unified Ideographs Extension B
  and for the Hangul letter U+1100 of Hangul Jamo: both lie outside every range of
  \<open>strip_emojis\<close>, and a reply made of either is returned as it is.
\<close>

theorem cjk_extension_kept:
  "cjk_extension_b 0x20000 \<and> \<not> is_emoji 0x20000 \<and> sanitize [0x20000] = [0x20000]
   \<and> hangul_jamo 0x1100 \<and> \<not> is_emoji 0x1100 \<and> sanitize [0x1100] = [0x1100]
   \<and> sanitize [0x20000] \<noteq> ustr ''Hola! Como estas?''"
  by (simp add: cjk_extension_b_def hangul_jamo_def sanitize_defs)

section \<open>The claims about transcription, the history and speech\<close>

lemmas transcribe_defs = transcribe_def transcribe_try_def transcribe_handles_def
  test_backends_def initial_prompt_def hallucinations_def ascii_lower_def

text \<open>
  C1. When language detection succeeds and the language of highest probability is
  neither \<open>en\<close> nor \<open>es\<close>, \<open>transcribe\<close> returns \<open>(None, "unsupported_language")\<close>, and
  the only call made on the model is the detection: no transcription call, for any
  language and prompt, is among the calls.
\<close>

theorem unsupported_language_rejected:
  assumes "detect_language b audio_data = Inr probs"
    and "max_by (\<lambda>k. the (map_of probs k)) (map fst probs) = Some detected_lang"
    and "detected_lang \<notin> set [''en'', ''es'']"
  shows "transcribe b audio_data = ([DetectLanguage], Inr (None, ''unsupported_language''))
         \<and> Transcribe lang prompt \<notin> set (fst (transcribe b audio_data))"
  using assms by (simp add: transcribe_def transcribe_try_def)

text \<open>C1 for a detection that gives French 80 percent, English and Spanish 10 each.\<close>

theorem unsupported_language_rejected_witness:
  "detect_language (test_backends (Inr [(''en'', 10), (''fr'', 80), (''es'', 10)]) (Inr []) (Exited 0)) ()
     = Inr [(''en'', 10), (''fr'', 80), (''es'', 10)]
   \<and> max_by (\<lambda>k. the (map_of [(''en'', 10), (''fr'', 80), (''es'', 10::nat)] k))
        (map fst [(''en'', 10), (''fr'', 80), (''es'', 10::nat)]) = Some ''fr''
   \<and> ''fr'' \<notin> set [''en'', ''es'']
   \<and> transcribe (test_backends (Inr [(''en'', 10), (''fr'', 80), (''es'', 10)]) (Inr []) (Exited 0)) ()
       = ([DetectLanguage], Inr (None, ''unsupported_language''))"
  using unsupported_language_rejected
    [of "test_backends (Inr [(''en'', 10), (''fr'', 80), (''es'', 10)]) (Inr []) (Exited 0)" "()"
        "[(''en'', 10), (''fr'', 80), (''es'', 10)]" "''fr''"]
  by (simp add: test_backends_def)

text \<open>
  C6, as amended. An exception raised by the language detection, or by the
  transcription call after an accepted detection, is turned into \<open>(None, "error")\<close> when
  it is a \<open>RuntimeError\<close>, a \<open>ValueError\<close> or a \<open>KeyError\<close>; an exception of any other
  class leaves \<open>transcribe\<close> and reaches the caller.
\<close>

theorem transcribe_exceptions:
  assumes "detect_language b audio_data = Inl e
           \<or> (detect_language b audio_data = Inr probs
              \<and> max_by (\<lambda>k. the (map_of probs k)) (map fst probs) = Some detected_lang
              \<and> detected_lang \<in> set [''en'', ''es'']
              \<and> whisper_transcribe b audio_data detected_lang (initial_prompt detected_lang) = Inl e)"
  shows "snd (transcribe b audio_data) =
           (if e \<in> set [RuntimeError, ValueError, KeyError] then Inr (None, ''error'') else Inl e)"
  using assms by (auto simp: transcribe_def transcribe_try_def transcribe_handles_def)

text \<open>The amended C6 for a transcription call that raises \<open>KeyError\<close> on Spanish audio.\<close>

theorem transcribe_exceptions_witness:
  "detect_language (test_backends (Inr [(''es'', 90), (''en'', 10)]) (Inl KeyError) (Exited 0)) ()
     = Inr [(''es'', 90), (''en'', 10)]
   \<and> max_by (\<lambda>k. the (map_of [(''es'', 90), (''en'', 10::nat)] k))
        (map fst [(''es'', 90), (''en'', 10::nat)]) = Some ''es''
   \<and> whisper_transcribe (test_backends (Inr [(''es'', 90), (''en'', 10)]) (Inl KeyError) (Exited 0))
        () ''es'' (initial_prompt ''es'') = Inl KeyError
   \<and> snd (transcribe (test_backends (Inr [(''es'', 90), (''en'', 10)]) (Inl KeyError) (Exited 0)) ())
       = Inr (None, ''error'')"
  using transcribe_exceptions
    [of "test_backends (Inr [(''es'', 90), (''en'', 10)]) (Inl KeyError) (Exited 0)" "()"
        KeyError "[(''es'', 90), (''en'', 10)]" "''es''"]
  by (simp add: test_backends_def)

text \<open>
  C6 as stated fails: a \<open>MemoryError\<close> raised by the detection, or a \<open>TypeError\<close> raised
  by the transcription call, is not handled and leaves \<open>transcribe\<close>.
\<close>

theorem transcribe_propagates_memory_error:
  "transcribe (test_backends (Inl MemoryError) (Inr []) (Exited 0)) ()
     = ([DetectLanguage], Inl MemoryError)
   \<and> transcribe (test_backends (Inr [(''es'', 90), (''en'', 10)]) (Inl TypeError) (Exited 0)) ()
     = ([DetectLanguage, Transcribe ''es'' (ustr ''Hola, como estas?'')], Inl TypeError)"
  by (simp add: transcribe_defs)

text \<open>
  C8. After an accepted detection and a transcription call that returns, the stripped
  transcript is rejected as \<open>(None, "no_speech")\<close> exactly when it has fewer than 2
  characters (the empty one included), or has fewer than 40 characters and contains,
  lower-cased, a lower-cased entry of \<open>hallucinations\<close>; any other transcript is returned
  with its language, so a transcript of 40 characters or more is never rejected.
  This holds for every lower-casing function.
\<close>

theorem no_speech_filter:
  assumes "detect_language b audio_data = Inr probs"
    and "max_by (\<lambda>k. the (map_of probs k)) (map fst probs) = Some detected_lang"
    and "detected_lang \<in> set [''en'', ''es'']"
    and "whisper_transcribe b audio_data detected_lang (initial_prompt detected_lang)
           = Inr result_text"
  shows "snd (transcribe b audio_data) =
           (if length (strip result_text) < 2
               \<or> (length (strip result_text) < 40
                   \<and> list_ex (\<lambda>h. str_contains (str_lower b (strip result_text)) (str_lower b h))
                        hallucinations)
            then Inr (None, ''no_speech'')
            else Inr (Some (strip result_text), detected_lang))
         \<and> (40 \<le> length (strip result_text) \<longrightarrow>
              snd (transcribe b audio_data) = Inr (Some (strip result_text), detected_lang))"
proof -
  let ?text = "strip result_text"
  have "list_ex (\<lambda>h. str_contains (str_lower b ?text) (str_lower b h) \<and> length ?text < 40)
          hallucinations
        = (length ?text < 40
           \<and> list_ex (\<lambda>h. str_contains (str_lower b ?text) (str_lower b h)) hallucinations)"
    by (auto simp: list_ex_iff)
  moreover have "(?text = [] \<or> length ?text < 2) = (length ?text < 2)" by auto
  ultimately show ?thesis
    using assms by (auto simp: transcribe_def transcribe_try_def Let_def)
qed


text \<open>
  C8 for the Spanish transcript \<open>"  Gracias por ver el video!  "\<close>: 25 characters once
  stripped, containing the first entry of \<open>hallucinations\<close>.
\<close>

theorem no_speech_filter_witness:
  "detect_language
     (test_backends (Inr [(''es'', 90), (''en'', 10)]) (Inr (ustr ''  Gracias por ver el video!  ''))
        (Exited 0)) () = Inr [(''es'', 90), (''en'', 10)]
   \<and> max_by (\<lambda>k. the (map_of [(''es'', 90), (''en'', 10::nat)] k))
        (map fst [(''es'', 90), (''en'', 10::nat)]) = Some ''es''
   \<and> ''es'' \<in> set [''en'', ''es'']
   \<and> strip (ustr ''  Gracias por ver el video!  '') = ustr ''Gracias por ver el video!''
   \<and> snd (transcribe
        (test_backends (Inr [(''es'', 90), (''en'', 10)]) (Inr (ustr ''  Gracias por ver el video!  ''))
           (Exited 0)) ()) = Inr (None, ''no_speech'')"
  using no_speech_filter
    [of "test_backends (Inr [(''es'', 90), (''en'', 10)]) (Inr (ustr ''  Gracias por ver el video!  ''))
           (Exited 0)" "()" "[(''es'', 90), (''en'', 10)]" "''es''"
        "ustr ''  Gracias por ver el video!  ''"]
  by (simp add: test_backends_def initial_prompt_def hallucinations_def ascii_lower_def
        ustr_def strip_def is_space_def startswith_def)

text \<open>
  What \<open>speak\<close> does to the outputs: it only adds to them; when it returns, the last
  thing it did was to play the text or to print it; and the only exception that leaves
  it is a \<open>ValueError\<close>, from a text with a surrogate or from a failed Piper whose
  standard error is not UTF-8.
\<close>

lemma speak_outputs_extend: "\<exists>xs. outputs (snd (speak b text w)) = outputs w @ xs"
  by (cases "piper b text"; cases "afplay b text")
    (auto simp: speak_def speak_try_def Let_def)

lemma speak_returns_last:
  "fst (speak b text w) = None \<Longrightarrow>
     last (outputs (snd (speak b text w))) = Played text
     \<or> last (outputs (snd (speak b text w))) = PrintedAudio text"
  by (cases "piper b text"; cases "afplay b text")
    (auto simp: speak_def speak_try_def Let_def split: if_splits)

lemma speak_raises:
  "fst (speak b text w) = Some e \<Longrightarrow>
     e = ValueError
     \<and> (\<not> utf8_encodable text
         \<or> (piper b text \<notin> set [Exited 0, Timeout, SpawnError] \<and> \<not> piper_stderr_utf8 b text))"
  by (cases "piper b text"; cases "afplay b text")
    (auto simp: speak_def speak_try_def Let_def split: if_splits)

lemma fallback_message_encodable: "utf8_encodable (fallback_message status)"
  by (simp add: fallback_message_def msg_unsupported_def msg_not_heard_def
        utf8_encodable_def ustr_def)

text \<open>
  C5. When \<open>transcribe\<close> returns no text, with any status (\<open>unsupported_language\<close>,
  \<open>no_speech\<close> or \<open>error\<close>), the round does nothing but print the fallback message for
  that status and call \<open>speak\<close> on it. The history after the round is the history before,
  whether \<open>speak\<close> returns or raises, and the message has been printed. When the round
  returns, the message was also played, or printed again by the handlers of \<open>speak\<close>.
  The round is left by an exception only when Piper fails and its standard error is
  not UTF-8; the exception is then a \<open>ValueError\<close>.
\<close>

theorem rejection_keeps_history:
  assumes "snd (transcribe b audio_data) = Inr (None, status)"
  shows "turn b audio_data (h, w) =
           (fst (say b (fallback_message status) w), h, snd (say b (fallback_message status) w))
         \<and> fst (snd (turn b audio_data (h, w))) = h
         \<and> PrintedOsito (fallback_message status)
              \<in> set (outputs (snd (snd (turn b audio_data (h, w)))))
         \<and> (fst (turn b audio_data (h, w)) = None \<longrightarrow>
              last (outputs (snd (snd (turn b audio_data (h, w)))))
                \<in> set [Played (fallback_message status), PrintedAudio (fallback_message status)])
         \<and> (fst (turn b audio_data (h, w)) = Some e \<longrightarrow>
              e = ValueError
              \<and> piper b (fallback_message status) \<notin> set [Exited 0, Timeout, SpawnError]
              \<and> \<not> piper_stderr_utf8 b (fallback_message status))"
proof -
  let ?m = "fallback_message status"
  let ?w0 = "w\<lparr>outputs := outputs w @ [PrintedOsito ?m]\<rparr>"
  have t: "turn b audio_data (h, w) = (fst (say b ?m w), h, snd (say b ?m w))"
    using assms by (simp add: turn_def fallback_message_def split: prod.split)
  obtain xs where "outputs (snd (speak b ?m ?w0)) = outputs ?w0 @ xs"
    using speak_outputs_extend [of b ?m ?w0] by blast
  then have p: "PrintedOsito ?m \<in> set (outputs (snd (say b ?m w)))"
    by (simp add: say_def)
  have l: "fst (say b ?m w) = None \<longrightarrow>
             last (outputs (snd (say b ?m w))) \<in> set [Played ?m, PrintedAudio ?m]"
    using speak_returns_last [of b ?m ?w0] by (auto simp: say_def)
  have r: "fst (say b ?m w) = Some e \<longrightarrow>
             e = ValueError \<and> piper b ?m \<notin> set [Exited 0, Timeout, SpawnError]
             \<and> \<not> piper_stderr_utf8 b ?m"
    using speak_raises [of b ?m ?w0 e] fallback_message_encodable [of status]
    by (auto simp: say_def)
  from t p l r show ?thesis by simp
qed

text \<open>C5 for French speech in a session with one exchange in its history.\<close>

theorem rejection_keeps_history_witness:
  "snd (transcribe (test_backends (Inr [(''en'', 10), (''fr'', 80), (''es'', 10)]) (Inr []) (Exited 0)) ())
     = Inr (None, ''unsupported_language'')
   \<and> turn (test_backends (Inr [(''en'', 10), (''fr'', 80), (''es'', 10)]) (Inr []) (Exited 0)) ()
        (exchange (ustr ''Hola'', ustr ''Hola!''), \<lparr>tmp_files = [], outputs = []\<rparr>)
     = (None, exchange (ustr ''Hola'', ustr ''Hola!''),
        \<lparr>tmp_files = [],
         outputs = [PrintedOsito msg_unsupported, Played msg_unsupported]\<rparr>)"
  using rejection_keeps_history
    [of "test_backends (Inr [(''en'', 10), (''fr'', 80), (''es'', 10)]) (Inr []) (Exited 0)" "()"
        "''unsupported_language''" "exchange (ustr ''Hola'', ustr ''Hola!'')"
        "\<lparr>tmp_files = [], outputs = []\<rparr>" ValueError]
  by (simp add: transcribe_defs say_def speak_def speak_try_def fresh_path_def
        fallback_message_def msg_unsupported_def utf8_encodable_def ustr_def)

text \<open>The history after a run of exchanges is made of the last four of them.\<close>

lemma run_exchanges_snoc:
  "run_exchanges (ps @ [p]) = append_exchange (run_exchanges ps) (fst p) (snd p)"
  by (simp add: run_exchanges_def)

lemma length_concat_exchange: "length (concat (map exchange qs)) = 2 * length qs"
  by (induction qs) (simp_all add: exchange_def)

lemma append_exchange_exchange:
  "append_exchange h (fst p) (snd p) =
     (if length h + 2 > 8 then drop (length h + 2 - 8) (h @ exchange p) else h @ exchange p)"
  by (simp add: append_exchange_def exchange_def MAX_HISTORY_TURNS_def Let_def)

lemma run_exchanges_last_four:
  "run_exchanges ps = concat (map exchange (drop (length ps - 4) ps))"
proof (induction ps rule: rev_induct)
  case Nil
  show ?case by (simp add: run_exchanges_def)
next
  case (snoc p ps)
  let ?qs = "drop (length ps - 4) ps"
  let ?h = "concat (map exchange ?qs)"
  have step: "run_exchanges (ps @ [p]) = append_exchange ?h (fst p) (snd p)"
    using snoc by (simp only: run_exchanges_snoc)
  have len: "length ?h = 2 * min (length ps) 4"
    by (simp add: length_concat_exchange min_def)
  show ?case
  proof (cases "length ps < 4")
    case True
    then have "append_exchange ?h (fst p) (snd p) = ?h @ exchange p"
      unfolding append_exchange_exchange using len by simp
    then show ?thesis using True step by simp
  next
    case False
    then have four: "length ?qs = 4" by simp
    then obtain q qs' where q: "?qs = q # qs'" by (cases ?qs) auto
    have tl: "drop (length ps - 3) ps = qs'"
    proof -
      have "length ps - 3 = Suc (length ps - 4)" using False by arith
      then have "drop (length ps - 3) ps = drop 1 ?qs" by simp
      then show ?thesis using q by simp
    qed
    have "append_exchange ?h (fst p) (snd p) = drop 2 (?h @ exchange p)"
      unfolding append_exchange_exchange using len False by simp
    also have "\<dots> = concat (map exchange qs') @ exchange p"
      using q by (simp add: exchange_def)
    finally have "run_exchanges (ps @ [p]) = concat (map exchange (qs' @ [p]))"
      using step by simp
    moreover have "drop (length (ps @ [p]) - 4) (ps @ [p]) = qs' @ [p]"
      using False tl by (simp add: Suc_diff_le numeral_eq_Suc)
    ultimately show ?thesis by simp
  qed
qed

text \<open>
  C2. After any run of successful turns from the empty history, the history has at
  most \<open>2 * MAX_HISTORY_TURNS\<close> = 8 messages and consists of the user and assistant
  messages of the last \<open>MAX_HISTORY_TURNS\<close> exchanges, in order: the oldest pairs are
  the ones dropped. One append-then-trim step gives at most 8 messages from any history.
\<close>

theorem history_bounded_fifo:
  "length (run_exchanges ps) \<le> 2 * MAX_HISTORY_TURNS
   \<and> run_exchanges ps = concat (map exchange (drop (length ps - MAX_HISTORY_TURNS) ps))
   \<and> length (append_exchange h text response) \<le> 2 * MAX_HISTORY_TURNS"
proof -
  have "length (run_exchanges ps) \<le> 8"
    unfolding run_exchanges_last_four length_concat_exchange by simp
  moreover have "length (append_exchange h text response) \<le> 8"
    by (simp add: append_exchange_def MAX_HISTORY_TURNS_def Let_def)
  ultimately show ?thesis
    using run_exchanges_last_four [of ps] by (simp add: MAX_HISTORY_TURNS_def)
qed

text \<open>
  C7. \<open>speak\<close> deletes its temporary file only after a successful playback: when Piper
  ends with return code 1, or runs into its timeout, the file (number 1 on an empty
  disk) is still there afterwards; after a successful run it is gone. The file also
  stays when Piper fails with a standard error that is not UTF-8 and the
  \<open>ValueError\<close> leaves \<open>speak\<close>.
\<close>

theorem speak_leaves_file_on_failure:
  "tmp_files (snd (speak (test_backends (Inr []) (Inr []) (Exited 1)) (ustr ''Hola!'')
                     \<lparr>tmp_files = [], outputs = []\<rparr>)) = [1]
   \<and> tmp_files (snd (speak (test_backends (Inr []) (Inr []) Timeout) (ustr ''Hola!'')
                     \<lparr>tmp_files = [], outputs = []\<rparr>)) = [1]
   \<and> tmp_files (snd (speak (test_backends (Inr []) (Inr []) (Exited 0)) (ustr ''Hola!'')
                     \<lparr>tmp_files = [], outputs = []\<rparr>)) = []
   \<and> speak ((test_backends (Inr []) (Inr []) (Exited 1))\<lparr>piper_stderr_utf8 := (\<lambda>_. False)\<rparr>)
        (ustr ''Hola!'') \<lparr>tmp_files = [], outputs = []\<rparr>
      = (Some ValueError, \<lparr>tmp_files = [1], outputs = []\<rparr>)"
  by (simp add: speak_def speak_try_def test_backends_def fresh_path_def
        utf8_encodable_def ustr_def)

end
